theory Spec2Isabelle
  imports Main "HOL-Library.AList" "HOL-Library.Sublist"
begin

section \<open>Transmission records (tribal\_data\_tracker.py)\<close>

text \<open>
  Python strings and byte strings are lists of characters. The constants of the classes
  \<open>DataClassification\<close> and \<open>TransmissionStatus\<close> are plain strings in the source (the
  classes are not enumerations), so a record's classification and status are strings too.
\<close>

type_synonym bytes = "char list"

definition PUBLIC :: string where "PUBLIC = ''PUBLIC''"
definition SENSITIVE :: string where "SENSITIVE = ''SENSITIVE''"
definition CONFIDENTIAL :: string where "CONFIDENTIAL = ''CONFIDENTIAL''"
definition TRIBAL_SOVEREIGN :: string where "TRIBAL_SOVEREIGN = ''TRIBAL_SOVEREIGN''"

definition PENDING :: string where "PENDING = ''PENDING''"
definition APPROVED :: string where "APPROVED = ''APPROVED''"
definition TRANSMITTED :: string where "TRANSMITTED = ''TRANSMITTED''"
definition FAILED :: string where "FAILED = ''FAILED''"
definition LOGGED :: string where "LOGGED = ''LOGGED''"

text \<open>An entry of the audit trail: the dictionary built by \<open>add_audit_entry\<close>.\<close>

record audit_entry =
  entry_timestamp :: string
  action :: string
  details :: string

text \<open>
  The attributes of \<open>DataTransmissionRecord\<close>. \<open>data_hash\<close> and \<open>encryption_method\<close>
  start as Python's \<open>None\<close>.
\<close>

record DataTransmissionRecord =
  record_id :: string
  data_type :: string
  destination :: string
  classification :: string
  data_size_bytes :: int
  timestamp :: string
  status :: string
  data_hash :: "string option"
  encryption_method :: "string option"
  tribal_ip_protected :: bool
  audit_trail :: "audit_entry list"

text \<open>
  The clock, the random source and SHA-256 are supplied from outside: \<open>now\<close> stands for
  what \<open>datetime.utcnow().isoformat()\<close> returned at the call, \<open>rid\<close> for the value of
  \<open>_generate_record_id()\<close>, and \<open>sha256_hexdigest\<close> for
  \<open>hashlib.sha256(data).hexdigest()\<close>.
\<close>

definition init_record ::
  "string \<Rightarrow> string \<Rightarrow> string \<Rightarrow> string \<Rightarrow> string \<Rightarrow> int \<Rightarrow> DataTransmissionRecord" where
  "init_record rid now dtype dest cls sz =
     \<lparr>record_id = rid, data_type = dtype, destination = dest, classification = cls,
      data_size_bytes = sz, timestamp = now @ ''Z'', status = PENDING,
      data_hash = None, encryption_method = None, tribal_ip_protected = True,
      audit_trail = []\<rparr>"

definition add_audit_entry ::
  "string \<Rightarrow> string \<Rightarrow> string \<Rightarrow> DataTransmissionRecord \<Rightarrow> DataTransmissionRecord" where
  "add_audit_entry now act det r =
     r\<lparr>audit_trail := audit_trail r @
          [\<lparr>entry_timestamp = now @ ''Z'', action = act, details = det\<rparr>]\<rparr>"

definition set_data_hash ::
  "(bytes \<Rightarrow> string) \<Rightarrow> string \<Rightarrow> bytes \<Rightarrow> DataTransmissionRecord \<Rightarrow> DataTransmissionRecord" where
  "set_data_hash sha256_hexdigest now data r =
     (let h = sha256_hexdigest data
      in add_audit_entry now ''DATA_HASHED''
           (''SHA-256 hash calculated: '' @ take 16 h @ ''...'')
           (r\<lparr>data_hash := Some h\<rparr>))"

definition set_encryption ::
  "string \<Rightarrow> string \<Rightarrow> DataTransmissionRecord \<Rightarrow> DataTransmissionRecord" where
  "set_encryption now method r =
     add_audit_entry now ''ENCRYPTED'' (''Data encrypted using '' @ method)
       (r\<lparr>encryption_method := Some method\<rparr>)"

definition mark_transmitted :: "string \<Rightarrow> DataTransmissionRecord \<Rightarrow> DataTransmissionRecord" where
  "mark_transmitted now r =
     add_audit_entry now ''TRANSMITTED'' ''Data successfully transmitted to destination''
       (r\<lparr>status := TRANSMITTED\<rparr>)"

definition mark_failed ::
  "string \<Rightarrow> string \<Rightarrow> DataTransmissionRecord \<Rightarrow> DataTransmissionRecord" where
  "mark_failed now err r =
     add_audit_entry now ''FAILED'' (''Transmission failed: '' @ err)
       (r\<lparr>status := FAILED\<rparr>)"

text \<open>
  Python's truth value of an attribute that holds \<open>None\<close> or a string: \<open>None\<close> and the
  empty string are false, every other string is true. The gate tests
  \<open>not record.encryption_method\<close> and \<open>not record.data_hash\<close>.
\<close>

definition truthy :: "string option \<Rightarrow> bool" where
  "truthy x = (case x of None \<Rightarrow> False | Some s \<Rightarrow> s \<noteq> [])"

text \<open>
  \<open>validate_transmission\<close> does not read or write the tracker; it returns the verdict
  and the record as the call leaves it. The three early returns are the first three
  branches.
\<close>

definition validate_transmission ::
  "string \<Rightarrow> DataTransmissionRecord \<Rightarrow> bool \<times> DataTransmissionRecord" where
  "validate_transmission now r =
     (if classification r = TRIBAL_SOVEREIGN then
        (False, add_audit_entry now ''VALIDATION_FAILED''
                  ''TRIBAL_SOVEREIGN data cannot leave network'' r)
      else if \<not> truthy (encryption_method r) then
        (False, add_audit_entry now ''VALIDATION_FAILED''
                  ''No encryption method specified'' r)
      else if \<not> truthy (data_hash r) then
        (False, add_audit_entry now ''VALIDATION_FAILED''
                  ''Data hash not calculated'' r)
      else
        (True, (add_audit_entry now ''VALIDATION_PASSED''
                  ''All validation checks passed'' r)\<lparr>status := APPROVED\<rparr>))"

subsection \<open>The tracker and its log files\<close>

text \<open>
  \<open>TribalDataTracker\<close> holds the records it created and the path of its log file
  (\<open>main_log_file\<close> is the string form of the path that pathlib computes from the log
  directory). In \<open>records\<close> each element is the record object at its current state: the
  Python list holds references, so what a later method call does to a record is seen
  through the list.
\<close>

record TribalDataTracker =
  log_directory :: string
  records :: "DataTransmissionRecord list"
  main_log_file :: string

text \<open>
  The two kinds of file that \<open>log_transmission\<close> writes: the JSONL log, one entry per
  appended line, and one snapshot file per record id, overwritten by each write. The
  value written is \<open>record.to_dict()\<close>, which holds every attribute of the record, so the
  snapshot is the record itself. JSON serialisation and the operating system's file
  errors are outside the model: every write is taken to succeed.
\<close>

record log_entry =
  log_timestamp :: string
  logged_record :: DataTransmissionRecord

record log_store =
  main_log :: "log_entry list"
  record_files :: "(string \<times> DataTransmissionRecord) list"

definition create_transmission_record ::
  "string \<Rightarrow> string \<Rightarrow> string \<Rightarrow> string \<Rightarrow> string \<Rightarrow> string \<Rightarrow> int \<Rightarrow> TribalDataTracker
     \<Rightarrow> DataTransmissionRecord \<times> TribalDataTracker" where
  "create_transmission_record rid now_init now_entry dtype dest cls sz tr =
     (let r = add_audit_entry now_entry ''CREATED'' ''Transmission record created''
                (init_record rid now_init dtype dest cls sz)
      in (r, tr\<lparr>records := records tr @ [r]\<rparr>))"

definition log_transmission ::
  "string \<Rightarrow> string \<Rightarrow> TribalDataTracker \<Rightarrow> log_store \<Rightarrow> DataTransmissionRecord
     \<Rightarrow> log_store \<times> DataTransmissionRecord" where
  "log_transmission now_log now_entry tr st r =
     (let entry = \<lparr>log_timestamp = now_log @ ''Z'', logged_record = r\<rparr>;
          st1 = st\<lparr>main_log := main_log st @ [entry]\<rparr>;
          st2 = st1\<lparr>record_files := AList.update (record_id r) r (record_files st1)\<rparr>
      in (st2, add_audit_entry now_entry ''LOGGED''
                 (''Record logged to '' @ main_log_file tr)
                 (r\<lparr>status := LOGGED\<rparr>)))"

text \<open>
  A Python dictionary from strings to counts is an association list in insertion order;
  \<open>d[k] = d.get(k, 0) + 1\<close> keeps the position of a key that is present and appends a
  new key.
\<close>

type_synonym count_dict = "(string \<times> int) list"

definition dict_get :: "(string \<times> 'v) list \<Rightarrow> string \<Rightarrow> 'v \<Rightarrow> 'v" where
  "dict_get d k dflt = (case map_of d k of None \<Rightarrow> dflt | Some v \<Rightarrow> v)"

definition count_up :: "count_dict \<Rightarrow> string \<Rightarrow> count_dict" where
  "count_up d k = AList.update k (dict_get d k 0 + 1) d"

record transmission_summary =
  total_transmissions :: int
  status_breakdown :: count_dict
  classification_breakdown :: count_dict
  destination_breakdown :: count_dict
  log_file :: string

fun summary_loop ::
  "DataTransmissionRecord list \<Rightarrow> count_dict \<times> count_dict \<times> count_dict
     \<Rightarrow> count_dict \<times> count_dict \<times> count_dict" where
  "summary_loop [] acc = acc"
| "summary_loop (r # rs) (status_counts, classification_counts, destination_counts) =
     summary_loop rs
       (count_up status_counts (status r),
        count_up classification_counts (classification r),
        count_up destination_counts (destination r))"

definition get_transmission_summary :: "TribalDataTracker \<Rightarrow> transmission_summary" where
  "get_transmission_summary tr =
     (case summary_loop (records tr) ([], [], []) of
        (status_counts, classification_counts, destination_counts) \<Rightarrow>
          \<lparr>total_transmissions = int (length (records tr)),
           status_breakdown = status_counts,
           classification_breakdown = classification_counts,
           destination_breakdown = destination_counts,
           log_file = main_log_file tr\<rparr>)"

subsection \<open>The states a record can reach\<close>

text \<open>
  A record starts in \<open>__init__\<close> and changes only through its own methods and the two
  tracker methods that take it. Each rule is one call, with any arguments, clock values
  and hash function.
\<close>

inductive reachable :: "DataTransmissionRecord \<Rightarrow> bool" where
  r_init: "reachable (init_record rid now dtype dest cls sz)"
| r_add_audit_entry: "reachable r \<Longrightarrow> reachable (add_audit_entry now act det r)"
| r_set_data_hash: "reachable r \<Longrightarrow> reachable (set_data_hash sha256_hexdigest now data r)"
| r_set_encryption: "reachable r \<Longrightarrow> reachable (set_encryption now method r)"
| r_mark_transmitted: "reachable r \<Longrightarrow> reachable (mark_transmitted now r)"
| r_mark_failed: "reachable r \<Longrightarrow> reachable (mark_failed now err r)"
| r_validate: "reachable r \<Longrightarrow> reachable (snd (validate_transmission now r))"
| r_log: "reachable r \<Longrightarrow> reachable (snd (log_transmission now_log now_entry tr st r))"

text \<open>The operations on an existing record, as one datatype, and the call of each.\<close>

datatype record_op =
    SetDataHash string bytes
  | SetEncryption string string
  | MarkTransmitted string
  | MarkFailed string string
  | ValidateTransmission string
  | LogTransmission string string TribalDataTracker log_store

fun apply_op :: "(bytes \<Rightarrow> string) \<Rightarrow> record_op \<Rightarrow> DataTransmissionRecord \<Rightarrow> DataTransmissionRecord" where
  "apply_op H (SetDataHash now data) r = set_data_hash H now data r"
| "apply_op H (SetEncryption now method) r = set_encryption now method r"
| "apply_op H (MarkTransmitted now) r = mark_transmitted now r"
| "apply_op H (MarkFailed now err) r = mark_failed now err r"
| "apply_op H (ValidateTransmission now) r = snd (validate_transmission now r)"
| "apply_op H (LogTransmission now_log now_entry tr st) r =
     snd (log_transmission now_log now_entry tr st r)"

text \<open>
  What the loop of \<open>get_transmission_summary\<close> maintains for each of its three
  dictionaries: the keys are distinct, the counts add up to the number of records seen,
  and every count is positive.
\<close>

definition counts_ok :: "count_dict \<Rightarrow> int \<Rightarrow> bool" where
  "counts_ok d n \<longleftrightarrow>
     distinct (map fst d) \<and> sum_list (map snd d) = n \<and> (\<forall>p \<in> set d. 0 < snd p)"

section \<open>Assessments (assessment\_system.py)\<close>

datatype AssessmentType = SECURITY | INFRASTRUCTURE | COMPLIANCE | CAPACITY

fun AssessmentType_value :: "AssessmentType \<Rightarrow> string" where
  "AssessmentType_value SECURITY = ''security''"
| "AssessmentType_value INFRASTRUCTURE = ''infrastructure''"
| "AssessmentType_value COMPLIANCE = ''compliance''"
| "AssessmentType_value CAPACITY = ''capacity''"

text \<open>
  The members of the enumeration \<open>ProtectionLevel\<close>; the prefix keeps them apart from
  the string constants of \<open>DataClassification\<close>, which have the same names.
\<close>

datatype ProtectionLevel =
  PL_PUBLIC | PL_SENSITIVE | PL_CONFIDENTIAL | PL_TRIBAL_SOVEREIGN

fun ProtectionLevel_value :: "ProtectionLevel \<Rightarrow> string" where
  "ProtectionLevel_value PL_PUBLIC = ''public''"
| "ProtectionLevel_value PL_SENSITIVE = ''sensitive''"
| "ProtectionLevel_value PL_CONFIDENTIAL = ''confidential''"
| "ProtectionLevel_value PL_TRIBAL_SOVEREIGN = ''tribal_sovereign''"

text \<open>
  A finding is a Python dictionary from strings to strings, kept as an association list
  in insertion order. \<open>d[k]\<close> raises \<open>KeyError\<close> on a missing key; \<open>d.get(k, dflt)\<close> is
  \<open>dict_get\<close>.
\<close>

type_synonym finding = "(string \<times> string) list"

datatype error = KeyError string | EncryptionFailed | DecryptionFailed

definition dict_item :: "(string \<times> 'v) list \<Rightarrow> string \<Rightarrow> error + 'v" where
  "dict_item d k = (case map_of d k of None \<Rightarrow> Inl (KeyError k) | Some v \<Rightarrow> Inr v)"

record Assessment =
  assessment_id :: string
  assessment_type :: AssessmentType
  name :: string
  assessment_timestamp :: string
  findings :: "finding list"
  metadata :: "(string \<times> string) list"

text \<open>
  \<open>aid\<close> stands for the value of \<open>_generate_id()\<close>, and \<open>fid\<close> for the twelve characters
  that \<open>add_finding\<close> takes from the SHA-256 digest of the assessment id followed by
  the number of findings.
\<close>

definition init_assessment :: "string \<Rightarrow> string \<Rightarrow> AssessmentType \<Rightarrow> string \<Rightarrow> Assessment" where
  "init_assessment aid now atype nm =
     \<lparr>assessment_id = aid, assessment_type = atype, name = nm,
      assessment_timestamp = now @ ''Z'', findings = [],
      metadata = [(''tribe'', ''Verdigris Botanica Tribal Nation''),
                  (''jurisdiction'', ''Tribal Sovereign Territory'')]\<rparr>"

definition add_finding ::
  "string \<Rightarrow> string \<Rightarrow> string \<Rightarrow> string \<Rightarrow> string \<Rightarrow> ProtectionLevel \<Rightarrow> Assessment \<Rightarrow> Assessment" where
  "add_finding fid now finding_type severity description protection_level a =
     (let finding = [(''finding_id'', fid),
                     (''type'', finding_type),
                     (''severity'', severity),
                     (''description'', description),
                     (''protection_level'', ProtectionLevel_value protection_level),
                     (''timestamp'', now @ ''Z'')]
      in a\<lparr>findings := findings a @ [finding]\<rparr>)"

text \<open>
  \<open>str.lower()\<close>, with a character read as the code point of its number: the capital
  letters A to Z, and the capital letters between 192 and 222 other than the
  multiplication sign 215, move up by 32; every other character below 256 stays.
\<close>

definition lower_char :: "char \<Rightarrow> char" where
  "lower_char c =
     (let n = (of_char c :: nat)
      in if (65 \<le> n \<and> n \<le> 90) \<or> (192 \<le> n \<and> n \<le> 222 \<and> n \<noteq> 215)
         then char_of (n + 32) else c)"

definition lower :: "string \<Rightarrow> string" where
  "lower s = map lower_char s"

text \<open>
  The summary starts with the five buckets at zero; a finding whose lower-cased
  severity is a key adds one to that key, and a finding whose severity is no key
  changes nothing (the test \<open>if severity in summary\<close>).
\<close>

definition empty_summary :: count_dict where
  "empty_summary =
     [(''critical'', 0), (''high'', 0), (''medium'', 0), (''low'', 0), (''info'', 0)]"

fun severity_loop :: "finding list \<Rightarrow> count_dict \<Rightarrow> count_dict" where
  "severity_loop [] summary = summary"
| "severity_loop (finding # rest) summary =
     (let severity = lower (dict_get finding ''severity'' ''info'')
      in severity_loop rest
           (case map_of summary severity of
              None \<Rightarrow> summary
            | Some c \<Rightarrow> AList.update severity (c + 1) summary))"

definition calculate_severity_summary :: "finding list \<Rightarrow> count_dict" where
  "calculate_severity_summary fs = severity_loop fs empty_summary"

text \<open>
  The list comprehension of \<open>get_shareable_results\<close>: it reads
  \<open>f["protection_level"]\<close> of each finding in turn, so the first finding without that
  key ends the call with \<open>KeyError\<close>.
\<close>

fun shareable_findings :: "finding list \<Rightarrow> error + finding list" where
  "shareable_findings [] = Inr []"
| "shareable_findings (f # fs) =
     (case dict_item f ''protection_level'' of
        Inl e \<Rightarrow> Inl e
      | Inr level \<Rightarrow>
          (case shareable_findings fs of
             Inl e \<Rightarrow> Inl e
           | Inr rest \<Rightarrow>
               if level \<in> set [ProtectionLevel_value PL_PUBLIC,
                                ProtectionLevel_value PL_SENSITIVE]
               then Inr (f # rest) else Inr rest))"

text \<open>The dictionary that \<open>get_shareable_results\<close> returns, one field per key.\<close>

record shareable_results =
  sr_assessment_id :: string
  sr_assessment_type :: string
  sr_name :: string
  sr_timestamp :: string
  findings_count :: int
  sr_findings :: "finding list"
  severity_summary :: count_dict
  sr_metadata :: "(string \<times> string) list"

definition get_shareable_results :: "Assessment \<Rightarrow> error + shareable_results" where
  "get_shareable_results a =
     (case shareable_findings (findings a) of
        Inl e \<Rightarrow> Inl e
      | Inr shareable \<Rightarrow>
          Inr \<lparr>sr_assessment_id = assessment_id a,
               sr_assessment_type = AssessmentType_value (assessment_type a),
               sr_name = name a,
               sr_timestamp = assessment_timestamp a,
               findings_count = int (length shareable),
               sr_findings = shareable,
               severity_summary = calculate_severity_summary shareable,
               sr_metadata = [(''source'', ''Tribal Sovereign Entity''),
                              (''classification'', ''Shared with Federal Partners'')]\<rparr>)"

text \<open>The test of the comprehension, and the severity a finding is counted under.\<close>

definition is_shareable :: "finding \<Rightarrow> bool" where
  "is_shareable f \<longleftrightarrow>
     map_of f ''protection_level'' = Some ''public''
     \<or> map_of f ''protection_level'' = Some ''sensitive''"

definition severity_of :: "finding \<Rightarrow> string" where
  "severity_of f = lower (dict_get f ''severity'' ''info'')"

section \<open>The encrypted envelope (cisa\_transmission.py)\<close>

text \<open>
  AES-GCM (the class \<open>AESGCM\<close> of the cryptography package) and Base64 are library
  code, not code of this repository; they enter as the four functions of a
  \<open>crypto_library\<close>. \<open>aesgcm_encrypt key nonce data\<close> stands for
  \<open>AESGCM(key).encrypt(nonce, data, None)\<close> and \<open>aesgcm_decrypt key nonce ct\<close> for
  \<open>AESGCM(key).decrypt(nonce, ct, None)\<close>; the value is \<open>None\<close> where the library
  raises (a key of a wrong length, a failed tag check). \<open>b64decode\<close> is \<open>None\<close> where
  the library rejects its input.
\<close>

record crypto_library =
  aesgcm_encrypt :: "bytes \<Rightarrow> bytes \<Rightarrow> bytes \<Rightarrow> bytes option"
  aesgcm_decrypt :: "bytes \<Rightarrow> bytes \<Rightarrow> bytes \<Rightarrow> bytes option"
  b64encode :: "bytes \<Rightarrow> string"
  b64decode :: "string \<Rightarrow> bytes option"

text \<open>
  The attributes of \<open>SecureTransmitter\<close> that encryption and decryption read. The
  attribute \<open>transmission_log\<close> is touched by neither and is left out. In \<open>__init__\<close>,
  \<open>encryption_key or self._generate_key()\<close> takes the generated key when the argument
  is \<open>None\<close> or empty.
\<close>

record SecureTransmitter =
  cisa_endpoint :: string
  encryption_key :: bytes

definition init_transmitter :: "bytes \<Rightarrow> string \<Rightarrow> bytes option \<Rightarrow> SecureTransmitter" where
  "init_transmitter generated_key endpoint key =
     \<lparr>cisa_endpoint = endpoint,
      encryption_key = (case key of None \<Rightarrow> generated_key
                        | Some k \<Rightarrow> if k = [] then generated_key else k)\<rparr>"

text \<open>
  \<open>encrypt_data\<close>: \<open>nonce\<close> stands for the twelve bytes of \<open>os.urandom(12)\<close>. Every
  exception inside the \<open>try\<close> block becomes \<open>CISATransmissionError\<close> with the text
  "Encryption failed", which is \<open>EncryptionFailed\<close>; in \<open>decrypt_data\<close> it is
  \<open>DecryptionFailed\<close>, also for a payload without the key \<open>ciphertext\<close> or \<open>nonce\<close>.
\<close>

definition encrypt_data ::
  "crypto_library \<Rightarrow> bytes \<Rightarrow> string \<Rightarrow> SecureTransmitter \<Rightarrow> bytes
     \<Rightarrow> error + (string \<times> string) list" where
  "encrypt_data lib nonce now self data =
     (case aesgcm_encrypt lib (encryption_key self) nonce data of
        None \<Rightarrow> Inl EncryptionFailed
      | Some ciphertext \<Rightarrow>
          Inr [(''ciphertext'', b64encode lib ciphertext),
               (''nonce'', b64encode lib nonce),
               (''algorithm'', ''AES-256-GCM''),
               (''timestamp'', now @ ''Z'')])"

definition decrypt_data ::
  "crypto_library \<Rightarrow> SecureTransmitter \<Rightarrow> (string \<times> string) list \<Rightarrow> error + bytes" where
  "decrypt_data lib self encrypted_payload =
     (case map_of encrypted_payload ''ciphertext'' of
        None \<Rightarrow> Inl DecryptionFailed
      | Some c \<Rightarrow>
     (case b64decode lib c of
        None \<Rightarrow> Inl DecryptionFailed
      | Some ciphertext \<Rightarrow>
     (case map_of encrypted_payload ''nonce'' of
        None \<Rightarrow> Inl DecryptionFailed
      | Some n \<Rightarrow>
     (case b64decode lib n of
        None \<Rightarrow> Inl DecryptionFailed
      | Some nonce \<Rightarrow>
     (case aesgcm_decrypt lib (encryption_key self) nonce ciphertext of
        None \<Rightarrow> Inl DecryptionFailed
      | Some plaintext \<Rightarrow> Inr plaintext)))))"

text \<open>
  What the two libraries document: decoding a Base64 encoding gives the bytes back, and
  AES-GCM decryption under the key and nonce of the encryption gives the data back.
\<close>

definition library_contract :: "crypto_library \<Rightarrow> bool" where
  "library_contract lib \<longleftrightarrow>
     (\<forall>x. b64decode lib (b64encode lib x) = Some x)
     \<and> (\<forall>key nonce data c.
           aesgcm_encrypt lib key nonce data = Some c \<longrightarrow>
           aesgcm_decrypt lib key nonce c = Some data)"

section \<open>Concrete inputs\<close>

text \<open>
  The record after \<open>create_transmission_record("assessment_results", "CISA",
  "SENSITIVE", 4)\<close> and \<open>set_data_hash(b"test")\<close>; the hash is the SHA-256 digest of the
  four bytes.
\<close>

definition hashed_record :: DataTransmissionRecord where
  "hashed_record =
     \<lparr>record_id = ''0f1e2d3c4b5a69788796a5b4'',
      data_type = ''assessment_results'',
      destination = ''CISA'',
      classification = ''SENSITIVE'',
      data_size_bytes = 4,
      timestamp = ''2026-01-01T00:00:00Z'',
      status = ''PENDING'',
      data_hash = Some ''9f86d081884c7d659a2feaa0c55ad015a3bf4f1b2b0b822cd15d6c15b0f00a08'',
      encryption_method = None,
      tribal_ip_protected = True,
      audit_trail =
        [\<lparr>entry_timestamp = ''2026-01-01T00:00:00Z'', action = ''CREATED'',
          details = ''Transmission record created''\<rparr>,
         \<lparr>entry_timestamp = ''2026-01-01T00:00:01Z'', action = ''DATA_HASHED'',
          details = ''SHA-256 hash calculated: 9f86d081884c7d65...''\<rparr>]\<rparr>"

text \<open>The same record with another classification, and a tracker that holds both.\<close>

definition sovereign_record :: DataTransmissionRecord where
  "sovereign_record = hashed_record\<lparr>classification := ''TRIBAL_SOVEREIGN''\<rparr>"

definition two_record_tracker :: TribalDataTracker where
  "two_record_tracker =
     \<lparr>log_directory = ''./logs'',
      records = [hashed_record, sovereign_record],
      main_log_file = ''logs/tribal_data_transmission_log.jsonl''\<rparr>"

text \<open>
  The assessment of the example in the specification: one public and one
  tribal-sovereign finding, both of severity \<open>info\<close>.
\<close>

definition example_assessment :: Assessment where
  "example_assessment =
     add_finding ''b1946ac92492'' ''2026-01-01T00:00:02'' ''sovereignty'' ''info''
       ''Tribal sovereignty controls active'' PL_TRIBAL_SOVEREIGN
       (add_finding ''5d41402abc4b'' ''2026-01-01T00:00:01'' ''network_security'' ''info''
          ''Network perimeter security validated'' PL_PUBLIC
          (init_assessment ''2c26b46b68ffc68f'' ''2026-01-01T00:00:00'' SECURITY
             ''Tribal Infrastructure Security Assessment''))"

text \<open>An assessment whose only finding has a severity outside the five buckets.\<close>

definition urgent_assessment :: Assessment where
  "urgent_assessment =
     add_finding ''5d41402abc4b'' ''2026-01-01T00:00:01'' ''network_security'' ''urgent''
       ''Perimeter firewall disabled'' PL_PUBLIC
       (init_assessment ''2c26b46b68ffc68f'' ''2026-01-01T00:00:00'' SECURITY ''Audit'')"

text \<open>
  A stand-in for the libraries that meets \<open>library_contract\<close>: the "ciphertext" is the
  data followed by the nonce, accepted under keys of 32 bytes, and the "encoding" is the
  identity. It only shows that the contract can be met.
\<close>

definition stand_in_library :: crypto_library where
  "stand_in_library =
     \<lparr>aesgcm_encrypt = (\<lambda>key nonce data.
        if length key = 32 then Some (data @ nonce) else None),
      aesgcm_decrypt = (\<lambda>key nonce ct.
        if length key = 32 \<and> length nonce \<le> length ct
           \<and> drop (length ct - length nonce) ct = nonce
        then Some (take (length ct - length nonce) ct) else None),
      b64encode = (\<lambda>x. x),
      b64decode = Some\<rparr>"

definition stand_in_transmitter :: SecureTransmitter where
  "stand_in_transmitter =
     init_transmitter ''0123456789abcdef0123456789abcdef''
       ''https://cisa.gov/tribal-data-intake'' None"

section \<open>Properties of transmission records\<close>

lemmas classification_defs = PUBLIC_def SENSITIVE_def CONFIDENTIAL_def TRIBAL_SOVEREIGN_def
lemmas status_defs = PENDING_def APPROVED_def TRANSMITTED_def FAILED_def LOGGED_def

lemma audit_trail_add_audit_entry:
  "audit_trail (add_audit_entry now act det r) =
     audit_trail r @ [\<lparr>entry_timestamp = now @ ''Z'', action = act, details = det\<rparr>]"
  by (simp add: add_audit_entry_def)

lemma add_audit_entry_fields:
  "status (add_audit_entry now act det r) = status r"
  "classification (add_audit_entry now act det r) = classification r"
  "data_hash (add_audit_entry now act det r) = data_hash r"
  "encryption_method (add_audit_entry now act det r) = encryption_method r"
  by (simp_all add: add_audit_entry_def)

lemma truthy_iff: "truthy x \<longleftrightarrow> (\<exists>s. x = Some s \<and> s \<noteq> [])"
  by (cases x) (simp_all add: truthy_def)

text \<open>
  C2, as stated, at a record whose hash and encryption method are both set: after
  \<open>set_encryption("")\<close> the attribute \<open>encryption_method\<close> holds the empty string, the
  classification is SENSITIVE and the hash is set, and the gate still answers false,
  because it tests the truth value of the attribute and not whether it is \<open>None\<close>.
\<close>

theorem validate_set_but_empty_counterexample:
  "classification (set_encryption ''2026-01-01T00:00:02'' [] hashed_record) \<noteq> TRIBAL_SOVEREIGN
   \<and> data_hash (set_encryption ''2026-01-01T00:00:02'' [] hashed_record) \<noteq> None
   \<and> encryption_method (set_encryption ''2026-01-01T00:00:02'' [] hashed_record) \<noteq> None
   \<and> \<not> fst (validate_transmission ''2026-01-01T00:00:03''
              (set_encryption ''2026-01-01T00:00:02'' [] hashed_record))"
  by (simp add: validate_transmission_def set_encryption_def add_audit_entry_def
      hashed_record_def truthy_def TRIBAL_SOVEREIGN_def)

text \<open>
  C2, amended: \<open>validate_transmission\<close> returns true if and only if the classification
  is not TRIBAL_SOVEREIGN and both \<open>data_hash\<close> and \<open>encryption_method\<close> hold a
  non-empty string. A record classified TRIBAL_SOVEREIGN fails whatever its hash and
  encryption method are, and a passing call leaves the status APPROVED.
\<close>

theorem validate_transmission_iff:
  "(fst (validate_transmission now r) \<longleftrightarrow>
      classification r \<noteq> TRIBAL_SOVEREIGN
      \<and> (\<exists>h. data_hash r = Some h \<and> h \<noteq> [])
      \<and> (\<exists>m. encryption_method r = Some m \<and> m \<noteq> []))
   \<and> (classification r = TRIBAL_SOVEREIGN \<longrightarrow> \<not> fst (validate_transmission now r))
   \<and> (fst (validate_transmission now r) \<longrightarrow>
        status (snd (validate_transmission now r)) = APPROVED)"
  by (auto simp add: validate_transmission_def truthy_iff)

theorem validate_transmission_iff_witness:
  "fst (validate_transmission ''2026-01-01T00:00:03''
          (set_encryption ''2026-01-01T00:00:02'' ''AES-256-GCM'' hashed_record))
   \<and> status (snd (validate_transmission ''2026-01-01T00:00:03''
          (set_encryption ''2026-01-01T00:00:02'' ''AES-256-GCM'' hashed_record))) = APPROVED
   \<and> \<not> fst (validate_transmission ''2026-01-01T00:00:03''
          (set_encryption ''2026-01-01T00:00:02'' ''AES-256-GCM'' sovereign_record))"
  using validate_transmission_iff [of "''2026-01-01T00:00:03''"
          "set_encryption ''2026-01-01T00:00:02'' ''AES-256-GCM'' hashed_record"]
        validate_transmission_iff [of "''2026-01-01T00:00:03''"
          "set_encryption ''2026-01-01T00:00:02'' ''AES-256-GCM'' sovereign_record"]
  by (simp add: set_encryption_def add_audit_entry_def hashed_record_def sovereign_record_def
      TRIBAL_SOVEREIGN_def)

text \<open>
  C4: in every state that a record reaches from \<open>__init__\<close> by any sequence of its own
  methods, \<open>validate_transmission\<close> and \<open>log_transmission\<close>, a status of APPROVED comes
  with a classification other than TRIBAL_SOVEREIGN, an encryption method that is set
  and a hash that is set (neither attribute is \<open>None\<close>). The sequence is arbitrary, so
  the order in which hash and encryption method were set plays no part.
\<close>

theorem approved_invariant:
  "reachable r \<Longrightarrow> status r = APPROVED \<Longrightarrow>
     classification r \<noteq> TRIBAL_SOVEREIGN \<and> encryption_method r \<noteq> None \<and> data_hash r \<noteq> None"
proof (induction rule: reachable.induct)
  case (r_init rid now dtype dest cls sz)
  then show ?case by (simp add: init_record_def status_defs)
next
  case (r_add_audit_entry r now act det)
  then show ?case by (simp add: add_audit_entry_fields)
next
  case (r_set_data_hash r sha256_hexdigest now data)
  then show ?case by (simp add: set_data_hash_def Let_def add_audit_entry_fields)
next
  case (r_set_encryption r now m)
  then show ?case by (simp add: set_encryption_def add_audit_entry_fields)
next
  case (r_mark_transmitted r now)
  then show ?case by (simp add: mark_transmitted_def add_audit_entry_fields status_defs)
next
  case (r_mark_failed r now err)
  then show ?case by (simp add: mark_failed_def add_audit_entry_fields status_defs)
next
  case (r_validate r now)
  then show ?case
    by (auto simp add: validate_transmission_def add_audit_entry_fields truthy_iff
        split: if_splits)
next
  case (r_log r now_log now_entry tr st)
  then show ?case
    by (simp add: log_transmission_def Let_def add_audit_entry_fields status_defs)
qed

text \<open>
  A record that sets its encryption method before its hash, passes the gate and is
  APPROVED.
\<close>

theorem approved_invariant_witness:
  "reachable
     (snd (validate_transmission ''2026-01-01T00:00:03''
        (set_data_hash (\<lambda>data. ''9f86d081884c7d659a2feaa0c55ad015a3bf4f1b2b0b822cd15d6c15b0f00a08'')
           ''2026-01-01T00:00:02'' ''test''
           (set_encryption ''2026-01-01T00:00:01'' ''AES-256-GCM''
              (init_record ''0f1e2d3c4b5a69788796a5b4'' ''2026-01-01T00:00:00''
                 ''assessment_results'' ''CISA'' SENSITIVE 4)))))
   \<and> status
     (snd (validate_transmission ''2026-01-01T00:00:03''
        (set_data_hash (\<lambda>data. ''9f86d081884c7d659a2feaa0c55ad015a3bf4f1b2b0b822cd15d6c15b0f00a08'')
           ''2026-01-01T00:00:02'' ''test''
           (set_encryption ''2026-01-01T00:00:01'' ''AES-256-GCM''
              (init_record ''0f1e2d3c4b5a69788796a5b4'' ''2026-01-01T00:00:00''
                 ''assessment_results'' ''CISA'' SENSITIVE 4))))) = APPROVED
   \<and> encryption_method
     (snd (validate_transmission ''2026-01-01T00:00:03''
        (set_data_hash (\<lambda>data. ''9f86d081884c7d659a2feaa0c55ad015a3bf4f1b2b0b822cd15d6c15b0f00a08'')
           ''2026-01-01T00:00:02'' ''test''
           (set_encryption ''2026-01-01T00:00:01'' ''AES-256-GCM''
              (init_record ''0f1e2d3c4b5a69788796a5b4'' ''2026-01-01T00:00:00''
                 ''assessment_results'' ''CISA'' SENSITIVE 4))))) \<noteq> None"
proof -
  let ?r = "snd (validate_transmission ''2026-01-01T00:00:03''
        (set_data_hash (\<lambda>data. ''9f86d081884c7d659a2feaa0c55ad015a3bf4f1b2b0b822cd15d6c15b0f00a08'')
           ''2026-01-01T00:00:02'' ''test''
           (set_encryption ''2026-01-01T00:00:01'' ''AES-256-GCM''
              (init_record ''0f1e2d3c4b5a69788796a5b4'' ''2026-01-01T00:00:00''
                 ''assessment_results'' ''CISA'' SENSITIVE 4))))"
  have reach: "reachable ?r"
    by (intro reachable.intros)
  have approved: "status ?r = APPROVED"
    by (simp add: validate_transmission_def set_data_hash_def set_encryption_def
        add_audit_entry_def init_record_def truthy_def classification_defs)
  from approved_invariant [OF reach approved] reach approved show ?thesis
    by blast
qed


text \<open>
  C6: every call of \<open>validate_transmission\<close> appends exactly one entry to the audit
  trail, pass or fail. The entry is that of the first rule that applies, in the order:
  classification TRIBAL_SOVEREIGN; encryption method missing (\<open>None\<close> or the empty
  string, which is what the gate tests); hash missing (the same test); pass.
\<close>

theorem validate_appends_one_entry:
  "audit_trail (snd (validate_transmission now r)) =
     audit_trail r @
       [\<lparr>entry_timestamp = now @ ''Z'',
         action = (if fst (validate_transmission now r)
                   then ''VALIDATION_PASSED'' else ''VALIDATION_FAILED''),
         details =
           (if classification r = TRIBAL_SOVEREIGN
              then ''TRIBAL_SOVEREIGN data cannot leave network''
            else if encryption_method r = None \<or> encryption_method r = Some []
              then ''No encryption method specified''
            else if data_hash r = None \<or> data_hash r = Some []
              then ''Data hash not calculated''
            else ''All validation checks passed'')\<rparr>]"
  by (cases "encryption_method r"; cases "data_hash r")
     (simp_all add: validate_transmission_def truthy_def audit_trail_add_audit_entry)

text \<open>
  C7: no operation on a record removes or changes an entry of its audit trail. After
  each of \<open>set_data_hash\<close>, \<open>set_encryption\<close>, \<open>mark_transmitted\<close>, \<open>mark_failed\<close>,
  \<open>validate_transmission\<close> and \<open>log_transmission\<close> the trail is the trail before the
  call with new entries at the end, and \<open>create_transmission_record\<close> extends the
  trail of the record that \<open>__init__\<close> built.
\<close>

theorem audit_trail_append_only:
  "prefix (audit_trail r) (audit_trail (apply_op H op r))
   \<and> prefix (audit_trail (init_record rid now0 dtype dest cls sz))
        (audit_trail (fst (create_transmission_record rid now0 now1 dtype dest cls sz tr)))"
  by (cases op)
     (simp_all add: set_data_hash_def set_encryption_def mark_transmitted_def mark_failed_def
        validate_transmission_def log_transmission_def create_transmission_record_def
        Let_def audit_trail_add_audit_entry)

text \<open>
  C8: when \<open>validate_transmission\<close> returns false, the record's status after the call
  is its status before the call.
\<close>

theorem validate_failure_keeps_status:
  "\<not> fst (validate_transmission now r) \<Longrightarrow>
     status (snd (validate_transmission now r)) = status r"
  by (simp add: validate_transmission_def add_audit_entry_fields split: if_splits)

theorem validate_failure_keeps_status_witness:
  "\<not> fst (validate_transmission ''2026-01-01T00:00:03'' hashed_record)
   \<and> status (snd (validate_transmission ''2026-01-01T00:00:03'' hashed_record)) = PENDING"
proof -
  have failed: "\<not> fst (validate_transmission ''2026-01-01T00:00:03'' hashed_record)"
    by (simp add: validate_transmission_def hashed_record_def truthy_def TRIBAL_SOVEREIGN_def)
  from validate_failure_keeps_status [OF failed] failed show ?thesis
    by (simp add: hashed_record_def PENDING_def)
qed

subsection \<open>The transmission summary\<close>

lemma sum_update:
  "sum_list (map snd (AList.update k (dict_get d k 0 + 1) d)) = sum_list (map snd d) + (1::int)"
  by (induction d) (auto simp add: dict_get_def)

lemma sum_count_up: "sum_list (map snd (count_up d k)) = sum_list (map snd d) + 1"
  unfolding count_up_def by (rule sum_update)

lemma distinct_count_up: "distinct (map fst d) \<Longrightarrow> distinct (map fst (count_up d k))"
  by (simp add: count_up_def distinct_update)

lemma dict_get_nonneg:
  "\<forall>p \<in> set d. 0 < snd p \<Longrightarrow> 0 \<le> dict_get d k (0::int)"
proof (cases "map_of d k")
  case None
  then show ?thesis by (simp add: dict_get_def)
next
  case (Some c)
  assume pos: "\<forall>p \<in> set d. 0 < snd p"
  from Some have "(k, c) \<in> set d" by (rule map_of_SomeD)
  with pos have "0 < c" by fastforce
  with Some show ?thesis by (simp add: dict_get_def)
qed

lemma set_update_subset: "set (AList.update k v d) \<subseteq> insert (k, v) (set d)"
  by (induction d) auto

lemma positive_count_up:
  assumes "\<forall>p \<in> set d. 0 < snd p"
  shows "\<forall>p \<in> set (count_up d k). 0 < snd p"
proof
  fix p assume "p \<in> set (count_up d k)"
  then have "p \<in> set d \<or> p = (k, dict_get d k 0 + 1)"
    unfolding count_up_def using set_update_subset [of k "dict_get d k 0 + 1" d] by auto
  moreover have "0 \<le> dict_get d k 0" using assms by (rule dict_get_nonneg)
  ultimately show "0 < snd p" using assms by auto
qed

lemma counts_ok_count_up:
  assumes "counts_ok d n"
  shows "counts_ok (count_up d k) (n + 1)"
proof -
  from assms have d: "distinct (map fst d)" and s: "sum_list (map snd d) = n"
    and p: "\<forall>p \<in> set d. 0 < snd p"
    by (simp_all add: counts_ok_def)
  have "distinct (map fst (count_up d k))" using d by (rule distinct_count_up)
  moreover have "sum_list (map snd (count_up d k)) = n + 1" using s by (simp add: sum_count_up)
  moreover have "\<forall>p \<in> set (count_up d k). 0 < snd p" using p by (rule positive_count_up)
  ultimately show ?thesis unfolding counts_ok_def by blast
qed

lemma summary_loop_counts:
  "counts_ok a n \<Longrightarrow> counts_ok b n \<Longrightarrow> counts_ok c n \<Longrightarrow>
   summary_loop rs (a, b, c) = (a', b', c') \<Longrightarrow>
   counts_ok a' (n + int (length rs)) \<and> counts_ok b' (n + int (length rs))
     \<and> counts_ok c' (n + int (length rs))"
proof (induction rs arbitrary: a b c n)
  case Nil
  then show ?case by simp
next
  case (Cons r rs)
  from Cons.prems(4)
  have step: "summary_loop rs (count_up a (status r), count_up b (classification r),
                count_up c (destination r)) = (a', b', c')"
    by simp
  have "counts_ok a' (n + 1 + int (length rs)) \<and> counts_ok b' (n + 1 + int (length rs))
          \<and> counts_ok c' (n + 1 + int (length rs))"
    by (rule Cons.IH [OF counts_ok_count_up counts_ok_count_up counts_ok_count_up step])
       (rule Cons.prems)+
  then show ?case by (simp add: algebra_simps)
qed

text \<open>
  C10: for every tracker, \<open>total_transmissions\<close> is the number of records it holds; in
  each of the three breakdowns the keys are distinct, the counts add up to
  \<open>total_transmissions\<close>, and every count is positive.
\<close>

theorem transmission_summary_counts:
  "total_transmissions (get_transmission_summary tr) = int (length (records tr))
   \<and> distinct (map fst (status_breakdown (get_transmission_summary tr)))
   \<and> distinct (map fst (classification_breakdown (get_transmission_summary tr)))
   \<and> distinct (map fst (destination_breakdown (get_transmission_summary tr)))
   \<and> sum_list (map snd (status_breakdown (get_transmission_summary tr)))
        = total_transmissions (get_transmission_summary tr)
   \<and> sum_list (map snd (classification_breakdown (get_transmission_summary tr)))
        = total_transmissions (get_transmission_summary tr)
   \<and> sum_list (map snd (destination_breakdown (get_transmission_summary tr)))
        = total_transmissions (get_transmission_summary tr)
   \<and> (\<forall>p \<in> set (status_breakdown (get_transmission_summary tr)). 0 < snd p)
   \<and> (\<forall>p \<in> set (classification_breakdown (get_transmission_summary tr)). 0 < snd p)
   \<and> (\<forall>p \<in> set (destination_breakdown (get_transmission_summary tr)). 0 < snd p)"
proof -
  obtain a b c where loop: "summary_loop (records tr) ([], [], []) = (a, b, c)"
    by (cases "summary_loop (records tr) ([], [], [])") auto
  have empty: "counts_ok [] 0" by (simp add: counts_ok_def)
  from summary_loop_counts [OF empty empty empty loop]
  have "counts_ok a (int (length (records tr)))" "counts_ok b (int (length (records tr)))"
       "counts_ok c (int (length (records tr)))"
    by simp_all
  then show ?thesis
    by (simp add: get_transmission_summary_def loop counts_ok_def)
qed

text \<open>
  A tracker with two records, both PENDING and both for CISA, one SENSITIVE and one
  TRIBAL_SOVEREIGN.
\<close>

theorem transmission_summary_counts_witness:
  "total_transmissions (get_transmission_summary two_record_tracker) = 2
   \<and> status_breakdown (get_transmission_summary two_record_tracker) = [(''PENDING'', 2)]
   \<and> classification_breakdown (get_transmission_summary two_record_tracker)
        = [(''SENSITIVE'', 1), (''TRIBAL_SOVEREIGN'', 1)]
   \<and> destination_breakdown (get_transmission_summary two_record_tracker) = [(''CISA'', 2)]"
  using transmission_summary_counts [of two_record_tracker]
  by (simp add: get_transmission_summary_def two_record_tracker_def hashed_record_def
      sovereign_record_def count_up_def dict_get_def)

section \<open>Properties of assessments\<close>

lemma is_shareable_level:
  "map_of f ''protection_level'' = Some l \<Longrightarrow>
     is_shareable f \<longleftrightarrow> l = ''public'' \<or> l = ''sensitive''"
  by (auto simp add: is_shareable_def)

text \<open>
  The comprehension is a filter when every finding has the key, and \<open>KeyError\<close>
  otherwise.
\<close>

lemma shareable_findings_eq:
  "shareable_findings fs =
     (if \<forall>f \<in> set fs. map_of f ''protection_level'' \<noteq> None
      then Inr (filter is_shareable fs) else Inl (KeyError ''protection_level''))"
  by (induction fs) (auto simp add: dict_item_def is_shareable_level split: option.splits)

text \<open>Every finding that \<open>add_finding\<close> builds has the key.\<close>

lemma init_assessment_has_level:
  "\<forall>f \<in> set (findings (init_assessment aid now atype nm)).
     map_of f ''protection_level'' \<noteq> None"
  by (simp add: init_assessment_def)

lemma add_finding_has_level:
  "\<forall>f \<in> set (findings a). map_of f ''protection_level'' \<noteq> None \<Longrightarrow>
   \<forall>f \<in> set (findings (add_finding fid now ft sev d pl a)).
     map_of f ''protection_level'' \<noteq> None"
  by (simp add: add_finding_def)

text \<open>
  C1: for an assessment whose findings all carry a protection level (as every finding
  built by \<open>add_finding\<close> does), \<open>get_shareable_results\<close> returns, in the order of the
  input, exactly the findings whose protection level is "public" or "sensitive": every
  finding labelled "confidential" or "tribal_sovereign" is left out, every finding
  labelled "public" or "sensitive" is kept, and \<open>findings_count\<close> is the length of the
  returned list.
\<close>

theorem shareable_results_filter:
  assumes "\<forall>f \<in> set (findings a). map_of f ''protection_level'' \<noteq> None"
  shows "\<exists>res. get_shareable_results a = Inr res
           \<and> sr_findings res = filter is_shareable (findings a)
           \<and> findings_count res = int (length (sr_findings res))
           \<and> (\<forall>f \<in> set (findings a).
                 map_of f ''protection_level'' = Some ''confidential''
                 \<or> map_of f ''protection_level'' = Some ''tribal_sovereign''
                 \<longrightarrow> f \<notin> set (sr_findings res))
           \<and> (\<forall>f \<in> set (findings a).
                 map_of f ''protection_level'' = Some ''public''
                 \<or> map_of f ''protection_level'' = Some ''sensitive''
                 \<longrightarrow> f \<in> set (sr_findings res))"
  using assms
  by (auto simp add: get_shareable_results_def shareable_findings_eq is_shareable_def)

text \<open>
  The example of the specification: of a public and a tribal-sovereign finding, one is
  shareable.
\<close>

theorem shareable_results_filter_witness:
  "\<exists>res. get_shareable_results example_assessment = Inr res
     \<and> findings_count res = 1
     \<and> map (\<lambda>f. map_of f ''protection_level'') (sr_findings res) = [Some ''public'']"
proof -
  have levels: "\<forall>f \<in> set (findings example_assessment). map_of f ''protection_level'' \<noteq> None"
    unfolding example_assessment_def
    by (intro add_finding_has_level init_assessment_has_level)
  have kept: "map (\<lambda>f. map_of f ''protection_level'')
                (filter is_shareable (findings example_assessment)) = [Some ''public'']"
    by (simp add: example_assessment_def add_finding_def init_assessment_def is_shareable_def)
  from shareable_results_filter [OF levels] obtain res where
    res: "get_shareable_results example_assessment = Inr res"
      "sr_findings res = filter is_shareable (findings example_assessment)"
      "findings_count res = int (length (sr_findings res))"
    by blast
  from res(2) kept have shown: "map (\<lambda>f. map_of f ''protection_level'') (sr_findings res)
                           = [Some ''public'']"
    by simp
  then have "length (sr_findings res) = 1"
    using length_map [of "\<lambda>f. map_of f ''protection_level''" "sr_findings res"] by simp
  with res(1,3) shown show ?thesis by simp
qed

subsection \<open>The severity summary\<close>

lemma key_present: "map_of s k = Some c \<Longrightarrow> k \<in> set (map fst s)"
  by (metis map_of_eq_None_iff option.distinct(1) set_map)

lemma severity_loop_keys: "map fst (severity_loop fs s) = map fst s"
proof (induction fs arbitrary: s)
  case Nil
  then show ?case by simp
next
  case (Cons f fs)
  show ?case
  proof (cases "map_of s (lower (dict_get f ''severity'' ''info''))")
    case None
    then show ?thesis by (simp add: Cons.IH)
  next
    case (Some c)
    then have "lower (dict_get f ''severity'' ''info'') \<in> set (map fst s)"
      by (rule key_present)
    then show ?thesis using Some by (simp add: Cons.IH update_keys)
  qed
qed

lemma severity_loop_lookup:
  "map_of (severity_loop fs s) b =
     (case map_of s b of None \<Rightarrow> None
      | Some c \<Rightarrow> Some (c + int (length (filter (\<lambda>f. severity_of f = b) fs))))"
proof (induction fs arbitrary: s)
  case Nil
  then show ?case by (simp split: option.splits)
next
  case (Cons f fs)
  show ?case
    by (cases "map_of s (severity_of f)")
       (auto simp add: Cons.IH severity_of_def update_conv' split: option.splits)
qed

lemma sum_update_present:
  "map_of s k = Some c \<Longrightarrow>
     sum_list (map snd (AList.update k (c + 1) s)) = sum_list (map snd s) + (1::int)"
  by (induction s) (auto split: if_splits)

lemma severity_loop_sum:
  "sum_list (map snd (severity_loop fs s)) =
     sum_list (map snd s) + int (length (filter (\<lambda>f. severity_of f \<in> set (map fst s)) fs))"
proof (induction fs arbitrary: s)
  case Nil
  then show ?case by simp
next
  case (Cons f fs)
  show ?case
  proof (cases "map_of s (severity_of f)")
    case None
    then have "severity_of f \<notin> set (map fst s)"
      by (simp add: map_of_eq_None_iff)
    with None show ?thesis by (simp add: Cons.IH severity_of_def)
  next
    case (Some c)
    then have "severity_of f \<in> set (map fst s)"
      by (rule key_present)
    moreover have "map fst (AList.update (severity_of f) (c + 1) s) = map fst s"
      using calculation by (simp add: update_keys)
    ultimately show ?thesis
      using Some Cons.IH [of "AList.update (severity_of f) (c + 1) s"]
      by (simp add: severity_of_def [symmetric] sum_update_present del: set_map)
  qed
qed

lemma severity_of_missing: "map_of f ''severity'' = None \<Longrightarrow> severity_of f = ''info''"
  by (simp add: severity_of_def dict_get_def lower_def lower_char_def)

text \<open>
  C3, as stated, at an assessment with one public finding of severity "urgent": the
  finding is in the shareable list (\<open>findings_count\<close> is 1), and it is counted in no
  bucket: "info" stays at 0 and the buckets add up to 0, not to 1.
\<close>

theorem severity_summary_unknown_counterexample:
  "get_shareable_results urgent_assessment
   = Inr \<lparr>sr_assessment_id = ''2c26b46b68ffc68f'',
           sr_assessment_type = ''security'',
           sr_name = ''Audit'',
           sr_timestamp = ''2026-01-01T00:00:00Z'',
           findings_count = 1,
           sr_findings = [[(''finding_id'', ''5d41402abc4b''),
                           (''type'', ''network_security''),
                           (''severity'', ''urgent''),
                           (''description'', ''Perimeter firewall disabled''),
                           (''protection_level'', ''public''),
                           (''timestamp'', ''2026-01-01T00:00:01Z'')]],
           severity_summary = [(''critical'', 0), (''high'', 0), (''medium'', 0),
                               (''low'', 0), (''info'', 0)],
           sr_metadata = [(''source'', ''Tribal Sovereign Entity''),
                          (''classification'', ''Shared with Federal Partners'')]\<rparr>"
  by (simp add: urgent_assessment_def get_shareable_results_def add_finding_def
      init_assessment_def dict_item_def calculate_severity_summary_def empty_summary_def
      dict_get_def lower_def lower_char_def)

text \<open>
  C3, amended: the severity summary returned by \<open>get_shareable_results\<close> has the five
  buckets critical, high, medium, low and info, and each bucket counts the filtered
  findings whose lower-cased severity is that bucket; a finding without a severity
  entry has the severity "info". A finding whose severity is none of the five is
  counted in no bucket, so the buckets add up to the number of filtered findings with
  one of the five severities; they add up to \<open>findings_count\<close> when every filtered
  finding has one of the five.
\<close>

theorem severity_summary_counts:
  assumes "get_shareable_results a = Inr res"
  shows "map fst (severity_summary res) = [''critical'', ''high'', ''medium'', ''low'', ''info'']
     \<and> (\<forall>b \<in> set [''critical'', ''high'', ''medium'', ''low'', ''info''].
           map_of (severity_summary res) b
             = Some (int (length (filter (\<lambda>f. severity_of f = b) (sr_findings res)))))
     \<and> sum_list (map snd (severity_summary res))
           = int (length (filter
                (\<lambda>f. severity_of f \<in> set [''critical'', ''high'', ''medium'', ''low'', ''info''])
                (sr_findings res)))
     \<and> ((\<forall>f \<in> set (sr_findings res).
            severity_of f \<in> set [''critical'', ''high'', ''medium'', ''low'', ''info''])
          \<longrightarrow> sum_list (map snd (severity_summary res)) = findings_count res)
     \<and> (\<forall>f \<in> set (sr_findings res). map_of f ''severity'' = None \<longrightarrow> severity_of f = ''info'')"
proof -
  from assms obtain shareable where
    sh: "shareable_findings (findings a) = Inr shareable"
    and fs: "sr_findings res = shareable"
    and cnt: "findings_count res = int (length shareable)"
    and summ: "severity_summary res = severity_loop shareable empty_summary"
    by (auto simp add: get_shareable_results_def calculate_severity_summary_def
        split: sum.splits)
  have keys: "map fst (severity_summary res) = [''critical'', ''high'', ''medium'', ''low'', ''info'']"
    by (simp add: summ severity_loop_keys empty_summary_def)
  have buckets: "\<forall>b \<in> set [''critical'', ''high'', ''medium'', ''low'', ''info''].
           map_of (severity_summary res) b
             = Some (int (length (filter (\<lambda>f. severity_of f = b) (sr_findings res))))"
    by (simp add: summ fs severity_loop_lookup empty_summary_def)
  have total: "sum_list (map snd (severity_summary res))
           = int (length (filter
                (\<lambda>f. severity_of f \<in> set [''critical'', ''high'', ''medium'', ''low'', ''info''])
                (sr_findings res)))"
    using severity_loop_sum [of shareable empty_summary]
    by (simp add: summ fs empty_summary_def)
  have known: "(\<forall>f \<in> set (sr_findings res).
            severity_of f \<in> set [''critical'', ''high'', ''medium'', ''low'', ''info''])
          \<longrightarrow> sum_list (map snd (severity_summary res)) = findings_count res"
  proof
    assume "\<forall>f \<in> set (sr_findings res).
            severity_of f \<in> set [''critical'', ''high'', ''medium'', ''low'', ''info'']"
    then have "filter
        (\<lambda>f. severity_of f \<in> set [''critical'', ''high'', ''medium'', ''low'', ''info''])
        (sr_findings res) = sr_findings res"
      by (simp only: filter_True)
    with total show "sum_list (map snd (severity_summary res)) = findings_count res"
      by (simp only: cnt fs)
  qed
  have missing: "\<forall>f \<in> set (sr_findings res). map_of f ''severity'' = None \<longrightarrow> severity_of f = ''info''"
    by (simp add: severity_of_missing)
  from keys buckets total known missing show ?thesis by (intro conjI)
qed

text \<open>
  The example of the specification: the one shareable finding has severity "info", and
  the buckets add up to \<open>findings_count\<close>.
\<close>

theorem severity_summary_counts_witness:
  "\<exists>res. get_shareable_results example_assessment = Inr res
     \<and> map_of (severity_summary res) ''info'' = Some 1
     \<and> sum_list (map snd (severity_summary res)) = 1
     \<and> findings_count res = 1"
proof -
  have levels: "\<forall>f \<in> set (findings example_assessment). map_of f ''protection_level'' \<noteq> None"
    unfolding example_assessment_def
    by (intro add_finding_has_level init_assessment_has_level)
  then obtain res where res: "get_shareable_results example_assessment = Inr res"
    by (auto simp add: get_shareable_results_def shareable_findings_eq)
  have fs: "sr_findings res = filter is_shareable (findings example_assessment)"
    using res levels by (auto simp add: get_shareable_results_def shareable_findings_eq)
  have cnt: "findings_count res = int (length (sr_findings res))"
    using res by (auto simp add: get_shareable_results_def split: sum.splits)
  have sev: "map severity_of (sr_findings res) = [''info'']"
    unfolding fs
    by (simp add: example_assessment_def add_finding_def init_assessment_def is_shareable_def
        severity_of_def dict_get_def lower_def lower_char_def)
  then have len: "length (sr_findings res) = 1"
    using length_map [of severity_of "sr_findings res"] by simp
  then obtain f where f: "sr_findings res = [f]"
    by (cases "sr_findings res") auto
  with sev have info: "severity_of f = ''info''" by simp
  from severity_summary_counts [OF res]
  have "map_of (severity_summary res) ''info''
          = Some (int (length (filter (\<lambda>f. severity_of f = ''info'') (sr_findings res))))"
    and "sum_list (map snd (severity_summary res))
           = int (length (filter
                (\<lambda>f. severity_of f \<in> set [''critical'', ''high'', ''medium'', ''low'', ''info''])
                (sr_findings res)))"
    by simp_all
  with f info cnt res show ?thesis by simp
qed

section \<open>The round trip of the envelope\<close>

text \<open>
  C9: on one transmitter, and with libraries that keep their contract, whenever AES-GCM
  encrypts the data under the transmitter's key, \<open>encrypt_data\<close> returns a payload and
  \<open>decrypt_data\<close> of that payload returns the data: the payload carries the ciphertext
  and the nonce of the encryption, and decryption reads both back and uses the same
  key.
\<close>

theorem encrypt_decrypt_round_trip:
  assumes "library_contract lib"
    and "aesgcm_encrypt lib (encryption_key self) nonce data = Some c"
  shows "\<exists>payload. encrypt_data lib nonce now self data = Inr payload
           \<and> decrypt_data lib self payload = Inr data"
proof -
  from assms(1) have b64: "\<And>x. b64decode lib (b64encode lib x) = Some x"
    and aes: "\<And>key nonce data c. aesgcm_encrypt lib key nonce data = Some c
                \<Longrightarrow> aesgcm_decrypt lib key nonce c = Some data"
    by (simp_all add: library_contract_def)
  have enc: "encrypt_data lib nonce now self data =
               Inr [(''ciphertext'', b64encode lib c), (''nonce'', b64encode lib nonce),
                    (''algorithm'', ''AES-256-GCM''), (''timestamp'', now @ ''Z'')]"
    by (simp add: encrypt_data_def assms(2))
  have dec: "decrypt_data lib self
               [(''ciphertext'', b64encode lib c), (''nonce'', b64encode lib nonce),
                (''algorithm'', ''AES-256-GCM''), (''timestamp'', now @ ''Z'')] = Inr data"
    by (simp add: decrypt_data_def b64 aes [OF assms(2)])
  from enc dec show ?thesis by simp
qed

lemma stand_in_library_contract: "library_contract stand_in_library"
  by (simp add: library_contract_def stand_in_library_def)

theorem encrypt_decrypt_round_trip_witness:
  "\<exists>payload.
     encrypt_data stand_in_library ''0123456789ab'' ''2026-01-01T00:00:00''
       stand_in_transmitter ''Test assessment data'' = Inr payload
     \<and> decrypt_data stand_in_library stand_in_transmitter payload
         = Inr ''Test assessment data''"
proof -
  have "aesgcm_encrypt stand_in_library (encryption_key stand_in_transmitter)
          ''0123456789ab'' ''Test assessment data''
        = Some (''Test assessment data'' @ ''0123456789ab'')"
    by (simp add: stand_in_library_def stand_in_transmitter_def init_transmitter_def)
  from encrypt_decrypt_round_trip [OF stand_in_library_contract this]
  show ?thesis .
qed

end
